theory Spec2Isabelle
  imports Complex_Main "HOL-Library.AList" "HOL-Library.Monad_Syntax"
begin

section \<open>Conventions of the embedding\<close>

text \<open>
  The program is TypeScript on three.js and React. A JavaScript number is modelled as a
  \<^typ>\<open>real\<close>. In the noise function and in the animation phases, where the statements
  equate an expression of the source with the same expression of the specification, sums,
  products, \<open>Math.min\<close>, \<open>Math.max\<close>, \<open>Math.sin\<close>, \<open>Math.cos\<close> and \<open>Math.pow\<close> are
  the exact operations. In the transition drivers, where rounding decides whether and at
  which frame the completion fires, every constant, sum and product is rounded to the
  nearest IEEE double (\<open>toDouble\<close>). The one non-number a computation of the source can
  produce, \<open>NaN\<close> from \<open>0 / 0\<close>, is the value \<open>None\<close> of a \<^typ>\<open>real option\<close>.

  A value of type \<open>string | null | undefined\<close> is a \<open>nullable_string\<close>; \<open>truthy\<close> is
  JavaScript's truthiness on it (the empty string is falsy). An object created by \<open>new\<close>
  carries a \<open>uuid\<close> that stands for its identity: two objects are the same object exactly
  when they are equal records, and every \<open>new\<close> draws a fresh \<open>uuid\<close>. A JavaScript
  \<open>Map\<close> is an association list in insertion order: \<open>has\<close> and \<open>get\<close> are
  \<^const>\<open>map_of\<close>, \<open>set\<close> is \<^const>\<open>AList.update\<close> and \<open>delete\<close> is
  \<^const>\<open>AList.delete\<close>.

  A React component is modelled by the functions of its state that its callbacks and its
  render compute. What an asynchronous hook holds at a render (the texture of
  \<open>useOptionalTexture\<close>) is an argument of the render.
\<close>

datatype nullable_string = Undefined | Null | Str string

fun truthy :: "nullable_string \<Rightarrow> bool" where
  "truthy Undefined = False"
| "truthy Null = False"
| "truthy (Str s) = (s \<noteq> [])"

definition Map_has :: "('k \<times> 'v) list \<Rightarrow> 'k \<Rightarrow> bool" where
  "Map_has m k = (map_of m k \<noteq> None)"

section \<open>Types of the configurator (types.ts)\<close>

datatype PaperType = Unbleached | Hemp | Bleached | Colored | Rice | Bamboo

datatype FilterType = Folded | Spiral | Ceramic | Glass | Wooden | Ball

datatype ConeSize = Size70mm | Size84mm | Size98mm | Size109mm

datatype LotSize = Sample | Small | Medium | Large | Mega | Bulk | Custom


section \<open>Textures\<close>

datatype Wrapping = ClampToEdgeWrapping | RepeatWrapping | MirroredRepeatWrapping

datatype ColorManagement = NotConfigured | SRGBColorSpace | SRGBEncoding

datatype TextureImage =
    LoadedImage string
  | PixelData "nat list" nat nat

record Texture =
  uuid :: nat
  image :: TextureImage
  wrapS :: Wrapping
  wrapT :: Wrapping
  repeat :: "real \<times> real"
  colorManagement :: ColorManagement
  needsUpdate :: bool

section \<open>Procedural paper textures (PaperViewer.tsx)\<close>

subsection \<open>fractalNoise\<close>

text \<open>
  The loop state is \<open>(value, amplitude, frequency, maxValue)\<close>; \<open>i\<close> is the loop counter.
  The octave count is a natural number: every caller passes an integer literal.
\<close>

type_synonym noise_state = "real \<times> real \<times> real \<times> real"

function fractalNoise_loop :: "nat \<Rightarrow> nat \<Rightarrow> real \<Rightarrow> real \<Rightarrow> noise_state \<Rightarrow> noise_state" where
  "fractalNoise_loop i octaves x y (val, amplitude, frequency, maxValue) =
     (if i < octaves
      then fractalNoise_loop (i + 1) octaves x y
             (val + sin (x * frequency) * cos (y * frequency) * amplitude,
              amplitude * 0.5,
              frequency * 2,
              maxValue + amplitude)
      else (val, amplitude, frequency, maxValue))"
  by pat_completeness auto
termination
  by (relation "measure (\<lambda>(i, octaves, x, y, st). octaves - i)") auto

declare fractalNoise_loop.simps [simp del]

text \<open>
  With no octave the source divides \<open>0\<close> by \<open>0\<close> and returns \<open>NaN\<close>: the result \<open>None\<close>.
\<close>

definition fractalNoise :: "real \<Rightarrow> real \<Rightarrow> nat \<Rightarrow> real \<Rightarrow> real \<Rightarrow> real option" where
  "fractalNoise x y octaves scale intensity =
     (case fractalNoise_loop 0 octaves x y (0, 1, scale, 0) of
        (val, amplitude, frequency, maxValue) \<Rightarrow>
          if maxValue = 0 then None else Some ((val / maxValue) * intensity))"

text \<open>The formula of the specification, written from its words.\<close>

definition octave_amplitude :: "nat \<Rightarrow> real" where
  "octave_amplitude k = 0.5 ^ k"

definition octave_frequency :: "real \<Rightarrow> nat \<Rightarrow> real" where
  "octave_frequency scale k = scale * 2 ^ k"

definition fractal_value_spec :: "real \<Rightarrow> real \<Rightarrow> nat \<Rightarrow> real \<Rightarrow> real \<Rightarrow> real" where
  "fractal_value_spec x y n scale intensity =
     (\<Sum>k<n. sin (x * octave_frequency scale k) * cos (y * octave_frequency scale k)
                * octave_amplitude k)
       / (\<Sum>k<n. octave_amplitude k) * intensity"

subsection \<open>generatePaperTexture\<close>

text \<open>
  One cell of the grid: the colour channels \<open>(r, g, b)\<close>, which are \<open>NaN\<close> when a noise
  value is, and the alpha channel.
\<close>

fun paperPixel :: "PaperType \<Rightarrow> real \<Rightarrow> real \<Rightarrow> (real \<times> real \<times> real) option \<times> real" where
  "paperPixel Unbleached x y =
     (do {
        noiseValue \<leftarrow> fractalNoise x y 3 6 0.2;
        grainValue \<leftarrow> fractalNoise (x * 3) (y * 3) 2 20 0.15;
        Some (139 + noiseValue * 35 + grainValue * 15,
              111 + noiseValue * 30 + grainValue * 12,
              71 + noiseValue * 25 + grainValue * 10)
      }, 255)"
| "paperPixel Hemp x y =
     (do {
        noiseValue \<leftarrow> fractalNoise x y 3 5 0.15;
        grainValue \<leftarrow> fractalNoise (x * 2.5) (y * 2.5) 2 15 0.1;
        Some (159 + noiseValue * 25 + grainValue * 10,
              175 + noiseValue * 20 + grainValue * 8,
              138 + noiseValue * 22 + grainValue * 12)
      }, 255)"
| "paperPixel Bleached x y =
     (do {
        noiseValue \<leftarrow> fractalNoise x y 2 4 0.04;
        grainValue \<leftarrow> fractalNoise (x * 6) (y * 6) 1 25 0.02;
        Some (249 + noiseValue * 5 + grainValue * 2,
              250 + noiseValue * 4 + grainValue * 2,
              251 + noiseValue * 3 + grainValue * 2)
      }, 255)"
| "paperPixel Colored x y =
     (do {
        noiseValue \<leftarrow> fractalNoise x y 2 4 0.05;
        grainValue \<leftarrow> fractalNoise (x * 5) (y * 5) 1 20 0.03;
        Some (249 + noiseValue * 6 + grainValue * 3,
              115 + noiseValue * 5 + grainValue * 2,
              22 + noiseValue * 4 + grainValue * 2)
      }, 255)"
| "paperPixel Rice x y =
     (do {
        noiseValue \<leftarrow> fractalNoise x y 2 3 0.025;
        grainValue \<leftarrow> fractalNoise (x * 8) (y * 8) 1 30 0.015;
        Some (245 + noiseValue * 8 + grainValue * 3,
              245 + noiseValue * 8 + grainValue * 3,
              240 + noiseValue * 8 + grainValue * 3)
      }, 240)"
| "paperPixel Bamboo x y =
     (do {
        noiseValue \<leftarrow> fractalNoise x y 4 7 0.22;
        grainValue \<leftarrow> fractalNoise (x * 2) (y * 2) 3 12 0.12;
        let fiberPattern = \<bar>sin (x * 2 + y * 0.5)\<bar> * 0.08;
        Some (212 + noiseValue * 30 + grainValue * 18 + fiberPattern * 15,
              196 + noiseValue * 25 + grainValue * 15 + fiberPattern * 12,
              168 + noiseValue * 27 + grainValue * 16 + fiberPattern * 10)
      }, 255)"

text \<open>\<open>Math.max(0, Math.min(255, v))\<close>, and the store of a number into a \<open>Uint8Array\<close>
  (truncation towards zero, modulo 256; \<open>NaN\<close> is stored as 0).\<close>

definition clampChannel :: "real \<Rightarrow> real" where
  "clampChannel v = max 0 (min 255 v)"

definition toUint8 :: "real \<Rightarrow> nat" where
  "toUint8 v = nat ((if 0 \<le> v then \<lfloor>v\<rfloor> else \<lceil>v\<rceil>) mod 256)"

definition pixelBytes :: "PaperType \<Rightarrow> real \<Rightarrow> real \<Rightarrow> nat list" where
  "pixelBytes effectiveType x y =
     (case paperPixel effectiveType x y of
        (None, a) \<Rightarrow> [0, 0, 0, toUint8 (clampChannel a)]
      | (Some (r, g, b), a) \<Rightarrow>
          [toUint8 (clampChannel r), toUint8 (clampChannel g), toUint8 (clampChannel b),
           toUint8 (clampChannel a)])"

definition textureSize :: nat where
  "textureSize = 512"

text \<open>
  The two nested loops write the four bytes of cell \<open>(i, j)\<close> at index
  \<open>(i * size + j) * 4\<close>: the buffer is the concatenation of the cells in that order.
\<close>

definition paperTextureData :: "PaperType \<Rightarrow> nat list" where
  "paperTextureData effectiveType =
     concat (map (\<lambda>i. concat (map (\<lambda>j.
         pixelBytes effectiveType (real i / real textureSize * 12) (real j / real textureSize * 12))
       [0..<textureSize])) [0..<textureSize])"

text \<open>
  The module-level state of the viewers: the memo table \<open>proceduralTextureCache\<close> of
  PaperViewer, the singleton \<open>woodTextureCache\<close> of ConeViewer, the identity the next
  \<open>new\<close> object receives, and a log of the material kinds \<open>generatePaperTexture\<close> has
  synthesised, in order (the log exists in the model only).
\<close>

record ModuleState =
  proceduralTextureCache :: "(PaperType \<times> Texture) list"
  woodTextureCache :: "Texture option"
  nextObjectId :: nat
  synthesisLog :: "PaperType list"

definition initialModuleState :: ModuleState where
  "initialModuleState =
     \<lparr>proceduralTextureCache = [], woodTextureCache = None, nextObjectId = 0,
      synthesisLog = []\<rparr>"

definition generatePaperTexture :: "PaperType option \<Rightarrow> ModuleState \<Rightarrow> Texture \<times> ModuleState" where
  "generatePaperTexture pType st =
     (let effectiveType = (case pType of None \<Rightarrow> Hemp | Some t \<Rightarrow> t);
          texture = \<lparr>uuid = nextObjectId st,
                     image = PixelData (paperTextureData effectiveType) textureSize textureSize,
                     wrapS = RepeatWrapping,
                     wrapT = RepeatWrapping,
                     repeat = (1, 1),
                     colorManagement = NotConfigured,
                     needsUpdate = True\<rparr>
      in (texture, st\<lparr>nextObjectId := nextObjectId st + 1,
                       synthesisLog := synthesisLog st @ [effectiveType]\<rparr>))"

definition getProceduralTexture :: "PaperType option \<Rightarrow> ModuleState \<Rightarrow> Texture option \<times> ModuleState" where
  "getProceduralTexture pType st =
     (let effectiveType = (case pType of None \<Rightarrow> Hemp | Some t \<Rightarrow> t);
          st' = (if \<not> Map_has (proceduralTextureCache st) effectiveType
                 then (case generatePaperTexture (Some effectiveType) st of
                         (texture, st1) \<Rightarrow>
                           st1\<lparr>proceduralTextureCache :=
                                 AList.update effectiveType texture (proceduralTextureCache st1)\<rparr>)
                 else st)
      in (map_of (proceduralTextureCache st') effectiveType, st'))"

text \<open>A sequence of calls of \<open>getProceduralTexture\<close>, results dropped.\<close>

fun getProceduralTextures :: "PaperType option list \<Rightarrow> ModuleState \<Rightarrow> ModuleState" where
  "getProceduralTextures [] st = st"
| "getProceduralTextures (k # ks) st = getProceduralTextures ks (snd (getProceduralTexture k st))"

section \<open>The texture cache (utils/textureCache)\<close>

text \<open>
  A promise is identified by its index in \<open>promiseStates\<close>, the store of every promise
  the module has created; \<open>new Promise\<close> and \<open>Promise.resolve\<close> append to it.
  \<open>loadsStarted\<close> logs every call of \<open>loader.load\<close> with its URL and the promise whose
  executor made it, and \<open>disposed\<close> logs every call of \<open>dispose\<close>; both logs exist in
  the model only. three.js calls exactly one of the two callbacks of a load, later and not
  inside \<open>loader.load\<close>: they are the functions \<open>onLoad\<close> and \<open>onError\<close>, which take
  the variables their closures captured (\<open>url\<close> and the promise).
\<close>

datatype PromiseState = Pending | Fulfilled Texture | Rejected string

record TextureCacheState =
  globalTextureCache :: "(string \<times> Texture) list"
  texturePromises :: "(string \<times> nat) list"
  promiseStates :: "PromiseState list"
  loadsStarted :: "(string \<times> nat) list"
  disposed :: "Texture list"

definition initialTextureCacheState :: TextureCacheState where
  "initialTextureCacheState =
     \<lparr>globalTextureCache = [], texturePromises = [], promiseStates = [],
      loadsStarted = [], disposed = []\<rparr>"

text \<open>Settling a promise that is already settled has no effect.\<close>

definition settle :: "nat \<Rightarrow> PromiseState \<Rightarrow> PromiseState list \<Rightarrow> PromiseState list" where
  "settle p outcome ps =
     (if p < length ps \<and> ps ! p = Pending then ps[p := outcome] else ps)"

definition preloadTexture :: "string \<Rightarrow> TextureCacheState \<Rightarrow> nat \<times> TextureCacheState" where
  "preloadTexture url st =
     (case map_of (globalTextureCache st) url of
        Some tex \<Rightarrow>
          (length (promiseStates st), st\<lparr>promiseStates := promiseStates st @ [Fulfilled tex]\<rparr>)
      | None \<Rightarrow>
          (case map_of (texturePromises st) url of
             Some promise \<Rightarrow> (promise, st)
           | None \<Rightarrow>
               (let promise = length (promiseStates st)
                in (promise,
                    st\<lparr>promiseStates := promiseStates st @ [Pending],
                       loadsStarted := loadsStarted st @ [(url, promise)],
                       texturePromises := AList.update url promise (texturePromises st)\<rparr>))))"

text \<open>
  The success callback. \<open>hasColorSpace\<close> is the test \<open>'colorSpace' in tex\<close>, which
  depends on the version of three.js.
\<close>

definition onLoad :: "bool \<Rightarrow> string \<Rightarrow> nat \<Rightarrow> Texture \<Rightarrow> TextureCacheState \<Rightarrow> TextureCacheState" where
  "onLoad hasColorSpace url promise tex st =
     (let tex' = tex\<lparr>wrapS := RepeatWrapping,
                     wrapT := RepeatWrapping,
                     repeat := (1, 1),
                     colorManagement := (if hasColorSpace then SRGBColorSpace else SRGBEncoding),
                     needsUpdate := True\<rparr>
      in st\<lparr>globalTextureCache := AList.update url tex' (globalTextureCache st),
            texturePromises := AList.delete url (texturePromises st),
            promiseStates := settle promise (Fulfilled tex') (promiseStates st)\<rparr>)"

definition onError :: "string \<Rightarrow> nat \<Rightarrow> string \<Rightarrow> TextureCacheState \<Rightarrow> TextureCacheState" where
  "onError url promise err st =
     st\<lparr>texturePromises := AList.delete url (texturePromises st),
        promiseStates := settle promise (Rejected err) (promiseStates st)\<rparr>"

definition getCachedTexture :: "nullable_string \<Rightarrow> TextureCacheState \<Rightarrow> Texture option \<times> TextureCacheState" where
  "getCachedTexture url st =
     (if \<not> truthy url then (None, st)
      else (case url of
              Str u \<Rightarrow> (map_of (globalTextureCache st) u, st)
            | _ \<Rightarrow> (None, st)))"

definition clearTextureCache :: "TextureCacheState \<Rightarrow> TextureCacheState" where
  "clearTextureCache st =
     st\<lparr>disposed := disposed st @ map snd (globalTextureCache st),
        globalTextureCache := [],
        texturePromises := []\<rparr>"

text \<open>
  What can happen to the module between two calls: a call of \<open>preloadTexture\<close>, a load
  reporting success or failure to its callbacks, a call of \<open>getCachedTexture\<close>.
  \<open>loadsOf url\<close> are the loads started for \<open>url\<close>.
\<close>

datatype CacheEvent =
    Preload string
  | LoadSucceeded bool string nat Texture
  | LoadFailed string nat string
  | Lookup nullable_string

fun eventUrl :: "CacheEvent \<Rightarrow> nullable_string" where
  "eventUrl (Preload u) = Str u"
| "eventUrl (LoadSucceeded h u p tex) = Str u"
| "eventUrl (LoadFailed u p err) = Str u"
| "eventUrl (Lookup u) = u"

fun applyEvent :: "CacheEvent \<Rightarrow> TextureCacheState \<Rightarrow> TextureCacheState" where
  "applyEvent (Preload u) st = snd (preloadTexture u st)"
| "applyEvent (LoadSucceeded h u p tex) st = onLoad h u p tex st"
| "applyEvent (LoadFailed u p err) st = onError u p err st"
| "applyEvent (Lookup u) st = snd (getCachedTexture u st)"

fun applyEvents :: "CacheEvent list \<Rightarrow> TextureCacheState \<Rightarrow> TextureCacheState" where
  "applyEvents [] st = st"
| "applyEvents (e # es) st = applyEvents es (applyEvent e st)"

definition loadsOf :: "string \<Rightarrow> TextureCacheState \<Rightarrow> (string \<times> nat) list" where
  "loadsOf url st = filter (\<lambda>l. fst l = url) (loadsStarted st)"

section \<open>Double arithmetic\<close>

text \<open>
  \<open>toDouble x\<close> is the IEEE 754 binary64 number nearest to \<open>x\<close>, ties to the even
  significand: \<open>x\<close> is scaled by the unit in the last place of its binade (53 significant
  bits, the exponent not below \<open>-1022\<close>, so that subnormal numbers share one unit),
  rounded to an integer and scaled back. \<open>jsAdd\<close>, \<open>jsSub\<close> and \<open>jsMul\<close> are
  JavaScript's \<open>+\<close>, \<open>-\<close> and \<open>*\<close> on numbers; a decimal literal \<open>c\<close> of the source is
  \<open>toDouble c\<close>. A result beyond the largest finite double, which JavaScript turns
  into \<open>Infinity\<close>, stays a large finite value here: every such value below is only
  compared with 1 or passed to \<open>Math.min(1, _)\<close>, on which the two agree for the
  frame times of a clock, which are numbers and not negative.
\<close>

definition roundHalfEven :: "real \<Rightarrow> int" where
  "roundHalfEven y =
     (let f = \<lfloor>y\<rfloor>; r = y - of_int f
      in if r < 1 / 2 then f else if 1 / 2 < r then f + 1 else if even f then f else f + 1)"

definition doubleExponent :: "real \<Rightarrow> int" where
  "doubleExponent x = max \<lfloor>log 2 \<bar>x\<bar>\<rfloor> (- 1022)"

definition toDouble :: "real \<Rightarrow> real" where
  "toDouble x =
     (if x = 0 then 0
      else of_int (roundHalfEven (x / 2 powr of_int (doubleExponent x - 52)))
             * 2 powr of_int (doubleExponent x - 52))"

definition jsAdd :: "real \<Rightarrow> real \<Rightarrow> real" where
  "jsAdd a b = toDouble (a + b)"


definition jsMul :: "real \<Rightarrow> real \<Rightarrow> real" where
  "jsMul a b = toDouble (a * b)"

section \<open>Transitions\<close>

subsection \<open>AnimatedPaper (PaperViewer.tsx)\<close>






subsection \<open>MergingScene (ConeMergeAnimtaion.tsx)\<close>

text \<open>
  \<open>animProgress\<close> is the React state, the value last passed to \<open>setAnimProgress\<close>.
  The frame callback does not read it: it reads the \<open>animProgress\<close> that the last render
  captured in its closure, here \<open>renderedProgress\<close>, and a render (\<open>mergeRender\<close>)
  brings the two together. What happens to the scene is therefore a list of events, frames
  and renders in any order. \<open>animationCompleteRef\<close> is a ref and is read and written in
  place. \<open>completionTimeouts\<close> counts the timers armed by
  \<open>setTimeout(() => onAnimationComplete?.(), 300)\<close> (in the model only); the model has
  no clock, and what an armed timer does 300 ms later is outside it.
\<close>

record MergingSceneState =
  animProgress :: real
  renderedProgress :: real
  animationCompleteRef :: bool
  completionTimeouts :: nat


definition mergeEffect :: "bool \<Rightarrow> MergingSceneState \<Rightarrow> MergingSceneState" where
  "mergeEffect isAnimating st =
     (if isAnimating then st\<lparr>animProgress := 0, animationCompleteRef := False\<rparr> else st)"

definition mergeRender :: "MergingSceneState \<Rightarrow> MergingSceneState" where
  "mergeRender st = st\<lparr>renderedProgress := animProgress st\<rparr>"

definition mergeFrame :: "bool \<Rightarrow> real \<Rightarrow> MergingSceneState \<Rightarrow> MergingSceneState" where
  "mergeFrame isAnimating delta st =
     (if isAnimating \<and> renderedProgress st < 1
      then (let newProgress = min 1 (jsAdd (renderedProgress st) (jsMul delta (toDouble 0.35)));
                st1 = st\<lparr>animProgress := newProgress\<rparr>
            in if newProgress \<ge> 1 \<and> \<not> animationCompleteRef st1
               then st1\<lparr>animationCompleteRef := True,
                        completionTimeouts := completionTimeouts st1 + 1\<rparr>
               else st1)
      else st)"

datatype SceneEvent = Frame real | Render

fun mergeStep :: "SceneEvent \<Rightarrow> MergingSceneState \<Rightarrow> MergingSceneState" where
  "mergeStep (Frame delta) st = mergeFrame True delta st"
| "mergeStep Render st = mergeRender st"

definition mergeTransition :: "SceneEvent list \<Rightarrow> MergingSceneState \<Rightarrow> MergingSceneState" where
  "mergeTransition events st = foldl (\<lambda>s e. mergeStep e s) (mergeEffect True st) events"

subsection \<open>The animation phases of MergingScene\<close>

definition easeInOutCubic :: "real \<Rightarrow> real" where
  "easeInOutCubic t = (if t < 0.5 then 4 * t * t * t else 1 - (-2 * t + 2) ^ 3 / 2)"

definition easeOutQuart :: "real \<Rightarrow> real" where
  "easeOutQuart t = 1 - (1 - t) ^ 4"

text \<open>
  The constants the frame callback computes while \<open>isAnimating\<close> holds, each a function of
  the \<open>animProgress\<close> it reads (and of the filter type where the source tests it).
\<close>

definition phase1 :: "real \<Rightarrow> real" where
  "phase1 progress = min 1 (progress * 2.5)"

definition phase2 :: "real \<Rightarrow> real" where
  "phase2 progress = max 0 (min 1 ((progress - 0.4) * 2))"

definition phase3 :: "real \<Rightarrow> real" where
  "phase3 progress = max 0 (min 1 ((progress - 0.7) * 3.33))"

definition moveEase :: "real \<Rightarrow> real" where
  "moveEase progress = easeInOutCubic (phase1 progress)"

definition paperX :: "real \<Rightarrow> real" where
  "paperX progress = 1.8 - moveEase progress * 1.8"

definition filterX :: "real \<Rightarrow> real" where
  "filterX progress = -1.8 + moveEase progress * 1.8"

definition rotateEase :: "real \<Rightarrow> real" where
  "rotateEase progress = easeOutQuart (phase2 progress)"

definition rotationAngle :: "real \<Rightarrow> real" where
  "rotationAngle progress = - pi / 2 + rotateEase progress * (pi / 2)"

definition coneEase :: "real \<Rightarrow> real" where
  "coneEase progress = easeInOutCubic (phase3 progress)"

definition paperTopRadius :: "real \<Rightarrow> real" where
  "paperTopRadius progress = 0.20 + coneEase progress * (0.18 - 0.20)"

definition paperBottomRadius :: "real \<Rightarrow> real" where
  "paperBottomRadius progress = 0.35 - coneEase progress * (0.35 - 0.12)"

definition paperHeight :: "real \<Rightarrow> real" where
  "paperHeight progress = 4 - coneEase progress * (4 - 2.8)"

definition paperY :: "real \<Rightarrow> real" where
  "paperY progress = coneEase progress * 1.5"

definition filterTopRadius :: "real \<Rightarrow> real" where
  "filterTopRadius progress = 0.20 - coneEase progress * (0.20 - 0.12)"

definition filterBottomRadius :: "FilterType option \<Rightarrow> real \<Rightarrow> real" where
  "filterBottomRadius fType progress =
     (if fType = Some Wooden
      then 0.28 - coneEase progress * (0.28 - 0.14)
      else 0.20 - coneEase progress * (0.20 - 0.14))"

definition filterHeight :: "real \<Rightarrow> real" where
  "filterHeight progress = 1.2 - coneEase progress * (1.2 - 0.6)"

definition filterY :: "real \<Rightarrow> real" where
  "filterY progress =
     paperY progress - (paperHeight progress / 2) - (filterHeight progress / 2) * coneEase progress"

text \<open>The same quantities, written from the words of the specification.\<close>

definition clamp :: "real \<Rightarrow> real \<Rightarrow> real \<Rightarrow> real" where
  "clamp v lo hi = (if v < lo then lo else if hi < v then hi else v)"

definition window_spec :: "real \<Rightarrow> real \<Rightarrow> real \<Rightarrow> real" where
  "window_spec windowStart windowScale progress =
     clamp ((progress - windowStart) * windowScale) 0 1"

definition cubic_ease_in_out_spec :: "real \<Rightarrow> real" where
  "cubic_ease_in_out_spec p = (if p < 0.5 then 4 * p ^ 3 else 1 - (-2 * p + 2) ^ 3 / 2)"

definition quartic_ease_out_spec :: "real \<Rightarrow> real" where
  "quartic_ease_out_spec p = 1 - (1 - p) ^ 4"

definition lerp_spec :: "real \<Rightarrow> real \<Rightarrow> real \<Rightarrow> real" where
  "lerp_spec start finish e = start + (finish - start) * e"

section \<open>Materials: colour and texture overrides\<close>





subsection \<open>AnimatedPaper (PaperViewer.tsx)\<close>





subsection \<open>ConeMesh (ConeViewer)\<close>












section \<open>Example inputs\<close>

text \<open>
  A texture as the loader hands it to the success callback, the same texture after the
  callback has configured it, a customization state with a paper colour override and no
  uploaded image, one with a colour override and the same uploaded image for paper and
  filter, and the state of the paper roll at progress \<open>p\<close> before its completion.
\<close>

definition loaderTexture :: "nat \<Rightarrow> string \<Rightarrow> Texture" where
  "loaderTexture i url =
     \<lparr>uuid = i, image = LoadedImage url, wrapS = ClampToEdgeWrapping,
      wrapT = ClampToEdgeWrapping, repeat = (1, 1), colorManagement = NotConfigured,
      needsUpdate = False\<rparr>"

definition tiledTexture :: "nat \<Rightarrow> string \<Rightarrow> Texture" where
  "tiledTexture i url =
     \<lparr>uuid = i, image = LoadedImage url, wrapS = RepeatWrapping,
      wrapT = RepeatWrapping, repeat = (1, 1), colorManagement = SRGBColorSpace,
      needsUpdate = True\<rparr>"




section \<open>The fractal noise formula\<close>

lemma fractalNoise_loop_sum:
  "fractalNoise_loop i octaves x y (v, a, f, m) =
     (v + (\<Sum>k<octaves - i. sin (x * (f * 2 ^ k)) * cos (y * (f * 2 ^ k)) * (a * 0.5 ^ k)),
      a * 0.5 ^ (octaves - i),
      f * 2 ^ (octaves - i),
      m + (\<Sum>k<octaves - i. a * 0.5 ^ k))"
proof (induction "octaves - i" arbitrary: i v a f m)
  case 0
  then have "\<not> i < octaves" by simp
  then have "fractalNoise_loop i octaves x y (v, a, f, m) = (v, a, f, m)"
    by (subst fractalNoise_loop.simps) simp
  with 0 show ?case by simp
next
  case (Suc d)
  then have lt: "i < octaves" and d: "d = octaves - (i + 1)" and e: "octaves - i = Suc d"
    by simp_all
  have "fractalNoise_loop i octaves x y (v, a, f, m) =
        fractalNoise_loop (i + 1) octaves x y
             (v + sin (x * f) * cos (y * f) * a, a * 0.5, f * 2, m + a)"
    using lt by (subst fractalNoise_loop.simps) simp
  also have "\<dots> = (v + sin (x * f) * cos (y * f) * a
         + (\<Sum>k<d. sin (x * (f * 2 * 2 ^ k)) * cos (y * (f * 2 * 2 ^ k)) * (a * 0.5 * 0.5 ^ k)),
      a * 0.5 * 0.5 ^ d,
      f * 2 * 2 ^ d,
      m + a + (\<Sum>k<d. a * 0.5 * 0.5 ^ k))"
    using Suc.hyps(1)[OF d] d by simp
  also have "\<dots> = (v + (\<Sum>k<Suc d. sin (x * (f * 2 ^ k)) * cos (y * (f * 2 ^ k)) * (a * 0.5 ^ k)),
      a * 0.5 ^ Suc d,
      f * 2 ^ Suc d,
      m + (\<Sum>k<Suc d. a * 0.5 ^ k))"
    by (simp only: sum.lessThan_Suc_shift power_Suc power_0 mult_1_right mult.assoc add.assoc)
  finally show ?case by (simp only: e)
qed

lemma amplitude_sum_pos: "0 < n \<Longrightarrow> 0 < (\<Sum>k<n. (0.5::real) ^ k)"
  by (rule sum_pos) auto

text \<open>
  Claim C4. For every \<open>x\<close>, \<open>y\<close>, \<open>scale\<close> and \<open>intensity\<close> and every octave count
  \<open>n \<ge> 1\<close>, \<open>fractalNoise\<close> returns the sum over \<open>k < n\<close> of
  \<open>sin (x * f k) * cos (y * f k) * a k\<close>, divided by the sum of the \<open>a k\<close> and
  multiplied by \<open>intensity\<close>, where \<open>a k = 0.5 ^ k\<close> and \<open>f k = scale * 2 ^ k\<close>.
\<close>

theorem fractalNoise_formula:
  "1 \<le> n \<Longrightarrow> fractalNoise x y n scale intensity = Some (fractal_value_spec x y n scale intensity)"
  using amplitude_sum_pos[of n]
  by (simp add: fractalNoise_def fractalNoise_loop_sum fractal_value_spec_def
      octave_amplitude_def octave_frequency_def)

theorem fractalNoise_formula_witness:
  "(1::nat) \<le> 2 \<and> fractalNoise (pi / 2) 0 2 1 3 = Some 2
   \<and> fractal_value_spec (pi / 2) 0 2 1 3 = 2"
  using fractalNoise_formula[of 2 "pi / 2" 0 1 3]
  by (simp add: fractal_value_spec_def octave_amplitude_def octave_frequency_def
      lessThan_Suc numeral_2_eq_2)

text \<open>Without the bound on \<open>n\<close> the formula is not what the source returns.\<close>

lemma fractalNoise_zero_octaves: "fractalNoise x y 0 scale intensity = None"
  by (simp add: fractalNoise_def fractalNoise_loop.simps)

section \<open>Memoization of the procedural textures\<close>

lemma getProceduralTexture_hit:
  "map_of (proceduralTextureCache st) (case k of None \<Rightarrow> Hemp | Some t \<Rightarrow> t) = Some tex
   \<Longrightarrow> getProceduralTexture k st = (Some tex, st)"
  by (simp add: getProceduralTexture_def Map_has_def)

lemma getProceduralTexture_miss:
  "map_of (proceduralTextureCache st) (case k of None \<Rightarrow> Hemp | Some t \<Rightarrow> t) = None
   \<Longrightarrow> getProceduralTexture k st =
        (Some (fst (generatePaperTexture (Some (case k of None \<Rightarrow> Hemp | Some t \<Rightarrow> t)) st)),
         (snd (generatePaperTexture (Some (case k of None \<Rightarrow> Hemp | Some t \<Rightarrow> t)) st))
           \<lparr>proceduralTextureCache :=
              AList.update (case k of None \<Rightarrow> Hemp | Some t \<Rightarrow> t)
                (fst (generatePaperTexture (Some (case k of None \<Rightarrow> Hemp | Some t \<Rightarrow> t)) st))
                (proceduralTextureCache st)\<rparr>)"
  by (simp add: getProceduralTexture_def Map_has_def generatePaperTexture_def Let_def
      update_conv')

lemma getProceduralTexture_stored:
  "map_of (proceduralTextureCache (snd (getProceduralTexture k st)))
     (case k of None \<Rightarrow> Hemp | Some t \<Rightarrow> t) = fst (getProceduralTexture k st)
   \<and> fst (getProceduralTexture k st) \<noteq> None"
proof (cases "map_of (proceduralTextureCache st) (case k of None \<Rightarrow> Hemp | Some t \<Rightarrow> t)")
  case None
  show ?thesis
    by (simp add: getProceduralTexture_miss[OF None] update_conv')
next
  case (Some tex)
  show ?thesis
    by (simp add: getProceduralTexture_hit[OF Some] Some)
qed

lemma getProceduralTexture_keeps:
  "map_of (proceduralTextureCache st) t = Some tex
   \<Longrightarrow> map_of (proceduralTextureCache (snd (getProceduralTexture k st))) t = Some tex"
proof (cases "map_of (proceduralTextureCache st) (case k of None \<Rightarrow> Hemp | Some t \<Rightarrow> t)")
  case None
  assume "map_of (proceduralTextureCache st) t = Some tex"
  with None show ?thesis
    by (auto simp add: getProceduralTexture_miss[OF None] update_conv')
next
  case (Some tex')
  assume "map_of (proceduralTextureCache st) t = Some tex"
  then show ?thesis
    by (simp add: getProceduralTexture_hit[OF Some])
qed

lemma getProceduralTextures_keeps:
  "map_of (proceduralTextureCache st) t = Some tex
   \<Longrightarrow> map_of (proceduralTextureCache (getProceduralTextures ks st)) t = Some tex"
  by (induction ks arbitrary: st) (simp_all add: getProceduralTexture_keeps)

lemma getProceduralTexture_log:
  "distinct (synthesisLog st) \<and> set (synthesisLog st) \<subseteq> dom (map_of (proceduralTextureCache st))
   \<Longrightarrow> distinct (synthesisLog (snd (getProceduralTexture k st)))
       \<and> set (synthesisLog (snd (getProceduralTexture k st)))
           \<subseteq> dom (map_of (proceduralTextureCache (snd (getProceduralTexture k st))))"
proof (cases "map_of (proceduralTextureCache st) (case k of None \<Rightarrow> Hemp | Some t \<Rightarrow> t)")
  case None
  assume inv: "distinct (synthesisLog st) \<and> set (synthesisLog st) \<subseteq> dom (map_of (proceduralTextureCache st))"
  with None have "(case k of None \<Rightarrow> Hemp | Some t \<Rightarrow> t) \<notin> set (synthesisLog st)"
    by (auto simp: dom_def)
  with inv show ?thesis
    by (auto simp add: getProceduralTexture_miss[OF None] update_conv' generatePaperTexture_def Let_def)
next
  case (Some tex')
  assume "distinct (synthesisLog st) \<and> set (synthesisLog st) \<subseteq> dom (map_of (proceduralTextureCache st))"
  then show ?thesis
    by (simp add: getProceduralTexture_hit[OF Some])
qed

lemma getProceduralTextures_log:
  "distinct (synthesisLog st) \<and> set (synthesisLog st) \<subseteq> dom (map_of (proceduralTextureCache st))
   \<Longrightarrow> distinct (synthesisLog (getProceduralTextures ks st))"
proof (induction ks arbitrary: st)
  case Nil
  then show ?case by simp
next
  case (Cons k ks)
  show ?case
    using Cons.IH[OF getProceduralTexture_log[OF Cons.prems]] by simp
qed

lemma count_list_distinct: "distinct xs \<Longrightarrow> count_list xs x \<le> 1"
  by (induction xs) (auto simp: count_list_0_iff)

lemma getProceduralTexture_repeat:
  "(case k' of None \<Rightarrow> Hemp | Some t \<Rightarrow> t) = (case k of None \<Rightarrow> Hemp | Some t \<Rightarrow> t)
   \<Longrightarrow> getProceduralTexture k' (snd (getProceduralTexture k st)) = getProceduralTexture k st"
proof -
  assume eq: "(case k' of None \<Rightarrow> Hemp | Some t \<Rightarrow> t) = (case k of None \<Rightarrow> Hemp | Some t \<Rightarrow> t)"
  obtain tex where tex: "fst (getProceduralTexture k st) = Some tex"
    using getProceduralTexture_stored[of k st] by auto
  then have "map_of (proceduralTextureCache (snd (getProceduralTexture k st)))
     (case k' of None \<Rightarrow> Hemp | Some t \<Rightarrow> t) = Some tex"
    using getProceduralTexture_stored[of k st] eq by simp
  from getProceduralTexture_hit[OF this] tex show ?thesis
    by (simp add: prod_eq_iff)
qed


text \<open>A second synthesis would create a different object.\<close>

lemma generatePaperTexture_fresh:
  "uuid (fst (generatePaperTexture k (snd (generatePaperTexture k st))))
     \<noteq> uuid (fst (generatePaperTexture k st))"
  by (simp add: generatePaperTexture_def Let_def)

text \<open>
  Claim C5. For every material kind, \<open>getProceduralTexture\<close> returns a texture, a second
  call with the same kind returns the identical object (the same record, \<open>uuid\<close>
  included) and leaves the module state as the first call left it, and this stays so
  after any further calls in between. In a run that starts with the empty memo
  table, each kind is synthesised at most once.
\<close>

theorem getProceduralTexture_memoized:
  "fst (getProceduralTexture k st) \<noteq> None
   \<and> getProceduralTexture k (snd (getProceduralTexture k st))
       = (fst (getProceduralTexture k st), snd (getProceduralTexture k st))
   \<and> fst (getProceduralTexture k (getProceduralTextures ks (snd (getProceduralTexture k st))))
       = fst (getProceduralTexture k st)
   \<and> count_list (synthesisLog (getProceduralTextures ks initialModuleState)) t \<le> 1"
proof -
  obtain tex where tex: "fst (getProceduralTexture k st) = Some tex"
    using getProceduralTexture_stored[of k st] by auto
  then have stored: "map_of (proceduralTextureCache (snd (getProceduralTexture k st)))
     (case k of None \<Rightarrow> Hemp | Some t \<Rightarrow> t) = Some tex"
    using getProceduralTexture_stored[of k st] by simp
  have a: "getProceduralTexture k (snd (getProceduralTexture k st))
       = (fst (getProceduralTexture k st), snd (getProceduralTexture k st))"
    using getProceduralTexture_hit[OF stored] tex by simp
  have b: "fst (getProceduralTexture k (getProceduralTextures ks (snd (getProceduralTexture k st))))
       = fst (getProceduralTexture k st)"
    using getProceduralTexture_hit[OF getProceduralTextures_keeps[OF stored, of ks]] tex by simp
  have c: "count_list (synthesisLog (getProceduralTextures ks initialModuleState)) t \<le> 1"
    by (rule count_list_distinct, rule getProceduralTextures_log)
       (simp add: initialModuleState_def)
  from tex a b c show ?thesis by simp
qed

text \<open>
  Claim C9. \<open>getProceduralTexture\<close> is total on a nullable material kind: on \<open>null\<close> it
  does what it does on \<open>"hemp"\<close>, it returns a texture and not \<open>null\<close>, and a call with
  \<open>null\<close> after a call with \<open>"hemp"\<close> (or the other way round) returns the identical
  cached object.
\<close>

theorem getProceduralTexture_null_is_hemp:
  "getProceduralTexture None st = getProceduralTexture (Some Hemp) st
   \<and> fst (getProceduralTexture None st) \<noteq> None
   \<and> fst (getProceduralTexture None (snd (getProceduralTexture (Some Hemp) st)))
       = fst (getProceduralTexture (Some Hemp) st)
   \<and> fst (getProceduralTexture (Some Hemp) (snd (getProceduralTexture None st)))
       = fst (getProceduralTexture None st)"
  using getProceduralTexture_stored[of None st]
    getProceduralTexture_repeat[of None "Some Hemp" st]
    getProceduralTexture_repeat[of "Some Hemp" None st]
  by (simp add: getProceduralTexture_def)

section \<open>The texture cache: single flight, failure, lookup, clear\<close>

lemma preloadTexture_start:
  "map_of (globalTextureCache st) url = None \<Longrightarrow> map_of (texturePromises st) url = None
   \<Longrightarrow> preloadTexture url st =
        (length (promiseStates st),
         st\<lparr>promiseStates := promiseStates st @ [Pending],
            loadsStarted := loadsStarted st @ [(url, length (promiseStates st))],
            texturePromises := AList.update url (length (promiseStates st)) (texturePromises st)\<rparr>)"
  by (simp add: preloadTexture_def Let_def)

lemma preloadTexture_in_flight:
  "map_of (globalTextureCache st) url = None \<Longrightarrow> map_of (texturePromises st) url = Some p
   \<Longrightarrow> preloadTexture url st = (p, st)"
  by (simp add: preloadTexture_def)

lemma preloadTexture_cached:
  "map_of (globalTextureCache st) url = Some tex
   \<Longrightarrow> preloadTexture url st =
        (length (promiseStates st), st\<lparr>promiseStates := promiseStates st @ [Fulfilled tex]\<rparr>)"
  by (simp add: preloadTexture_def)

lemma applyEvent_other_url:
  assumes "eventUrl e \<noteq> Str url"
  shows "map_of (globalTextureCache (applyEvent e st)) url = map_of (globalTextureCache st) url
       \<and> map_of (texturePromises (applyEvent e st)) url = map_of (texturePromises st) url
       \<and> loadsOf url (applyEvent e st) = loadsOf url st"
proof (cases e)
  case (Preload u)
  with assms have ne: "u \<noteq> url" by simp
  show ?thesis
    using ne unfolding Preload
    by (auto simp add: preloadTexture_def loadsOf_def Let_def update_conv'
        split: option.splits)
next
  case (LoadSucceeded h u p tex)
  with assms have ne: "u \<noteq> url" by simp
  show ?thesis
    using ne unfolding LoadSucceeded
    by (simp add: onLoad_def loadsOf_def Let_def update_conv' delete_conv')
next
  case (LoadFailed u p err)
  with assms have ne: "u \<noteq> url" by simp
  show ?thesis
    using ne unfolding LoadFailed
    by (simp add: onError_def loadsOf_def delete_conv')
next
  case (Lookup u)
  show ?thesis
    unfolding Lookup
    by (simp add: getCachedTexture_def loadsOf_def split: nullable_string.splits)
qed

lemma applyEvents_other_url:
  "\<forall>e\<in>set es. eventUrl e \<noteq> Str url
   \<Longrightarrow> map_of (globalTextureCache (applyEvents es st)) url = map_of (globalTextureCache st) url
       \<and> map_of (texturePromises (applyEvents es st)) url = map_of (texturePromises st) url
       \<and> loadsOf url (applyEvents es st) = loadsOf url st"
proof (induction es arbitrary: st)
  case Nil
  then show ?case by simp
next
  case (Cons e es)
  then have e: "eventUrl e \<noteq> Str url" and es: "\<forall>e\<in>set es. eventUrl e \<noteq> Str url"
    by simp_all
  show ?case
    using Cons.IH[OF es, of "applyEvent e st"] applyEvent_other_url[OF e, of st]
    by simp
qed

lemma settle_pending:
  "p < length ps \<Longrightarrow> ps ! p = Pending \<Longrightarrow> settle p outcome ps ! p = outcome
     \<and> length (settle p outcome ps) = length ps"
  by (simp add: settle_def)

text \<open>
  Claim C2. For every URL that is neither resolved nor in flight, a first call of
  \<open>preloadTexture\<close> starts one load and a second call, made while that load is in
  flight, returns the same pending promise and starts nothing: the load is performed
  exactly once. This also holds when calls and load results for other URLs come between
  the two calls. In any state in which the URL is in flight the call returns the promise
  of the in-flight map and changes nothing; when the URL is resolved the call returns a
  promise already fulfilled with the cached texture and starts no load.
\<close>

theorem preloadTexture_single_flight:
  "(map_of (globalTextureCache st) url = None \<and> map_of (texturePromises st) url = None \<longrightarrow>
      (let first = preloadTexture url st;
           second = preloadTexture url (snd first)
       in fst second = fst first
          \<and> snd second = snd first
          \<and> promiseStates (snd first) ! fst first = Pending
          \<and> loadsStarted (snd second) = loadsStarted st @ [(url, fst first)]))
   \<and> (map_of (globalTextureCache st) url = None \<and> map_of (texturePromises st) url = None
        \<and> (\<forall>e\<in>set es. eventUrl e \<noteq> Str url) \<longrightarrow>
      (let first = preloadTexture url st;
           second = preloadTexture url (applyEvents es (snd first))
       in fst second = fst first
          \<and> loadsOf url (snd second) = loadsOf url st @ [(url, fst first)]))
   \<and> (map_of (globalTextureCache st) url = None \<and> map_of (texturePromises st) url = Some p \<longrightarrow>
      preloadTexture url st = (p, st))
   \<and> (map_of (globalTextureCache st) url = Some tex \<longrightarrow>
      (let r = preloadTexture url st
       in promiseStates (snd r) ! fst r = Fulfilled tex
          \<and> loadsStarted (snd r) = loadsStarted st
          \<and> texturePromises (snd r) = texturePromises st
          \<and> globalTextureCache (snd r) = globalTextureCache st))"
proof (intro conjI impI)
  assume fresh: "map_of (globalTextureCache st) url = None \<and> map_of (texturePromises st) url = None"
  then have first: "preloadTexture url st =
        (length (promiseStates st),
         st\<lparr>promiseStates := promiseStates st @ [Pending],
            loadsStarted := loadsStarted st @ [(url, length (promiseStates st))],
            texturePromises := AList.update url (length (promiseStates st)) (texturePromises st)\<rparr>)"
    by (simp add: preloadTexture_start)
  have second: "preloadTexture url (snd (preloadTexture url st))
                  = (length (promiseStates st), snd (preloadTexture url st))"
    using fresh by (simp add: first preloadTexture_in_flight update_conv')
  show "let first = preloadTexture url st;
           second = preloadTexture url (snd first)
       in fst second = fst first
          \<and> snd second = snd first
          \<and> promiseStates (snd first) ! fst first = Pending
          \<and> loadsStarted (snd second) = loadsStarted st @ [(url, fst first)]"
    unfolding Let_def second by (simp add: first)
next
  assume h: "map_of (globalTextureCache st) url = None \<and> map_of (texturePromises st) url = None
        \<and> (\<forall>e\<in>set es. eventUrl e \<noteq> Str url)"
  then have first: "preloadTexture url st =
        (length (promiseStates st),
         st\<lparr>promiseStates := promiseStates st @ [Pending],
            loadsStarted := loadsStarted st @ [(url, length (promiseStates st))],
            texturePromises := AList.update url (length (promiseStates st)) (texturePromises st)\<rparr>)"
    by (simp add: preloadTexture_start)
  from h have es: "\<forall>e\<in>set es. eventUrl e \<noteq> Str url" by simp
  note keep = applyEvents_other_url[OF es, of "snd (preloadTexture url st)"]
  have c: "map_of (globalTextureCache (applyEvents es (snd (preloadTexture url st)))) url = None"
    using keep h by (simp add: first)
  have p: "map_of (texturePromises (applyEvents es (snd (preloadTexture url st)))) url
             = Some (length (promiseStates st))"
    using keep by (simp add: first update_conv')
  have l: "loadsOf url (applyEvents es (snd (preloadTexture url st)))
             = loadsOf url st @ [(url, length (promiseStates st))]"
    using keep by (simp add: first loadsOf_def)
  show "let first = preloadTexture url st;
           second = preloadTexture url (applyEvents es (snd first))
       in fst second = fst first
          \<and> loadsOf url (snd second) = loadsOf url st @ [(url, fst first)]"
    unfolding Let_def preloadTexture_in_flight[OF c p] using l by (simp add: first)
next
  assume "map_of (globalTextureCache st) url = None \<and> map_of (texturePromises st) url = Some p"
  then show "preloadTexture url st = (p, st)"
    by (simp add: preloadTexture_in_flight)
next
  assume "map_of (globalTextureCache st) url = Some tex"
  then show "let r = preloadTexture url st
       in promiseStates (snd r) ! fst r = Fulfilled tex
          \<and> loadsStarted (snd r) = loadsStarted st
          \<and> texturePromises (snd r) = texturePromises st
          \<and> globalTextureCache (snd r) = globalTextureCache st"
    by (simp add: preloadTexture_cached)
qed

theorem preloadTexture_single_flight_witness:
  "map_of (globalTextureCache initialTextureCacheState) ''img1.png'' = None
   \<and> map_of (texturePromises initialTextureCacheState) ''img1.png'' = None
   \<and> list_all (\<lambda>e. eventUrl e \<noteq> Str ''img1.png'')
         [Preload ''img2.png'', LoadFailed ''img2.png'' 1 ''404'']
   \<and> fst (preloadTexture ''img1.png'' initialTextureCacheState) = 0
   \<and> fst (preloadTexture ''img1.png''
             (snd (preloadTexture ''img1.png'' initialTextureCacheState))) = 0
   \<and> loadsStarted (snd (preloadTexture ''img1.png''
             (snd (preloadTexture ''img1.png'' initialTextureCacheState))))
        = [(''img1.png'', 0)]
   \<and> fst (preloadTexture ''img1.png''
             (applyEvents [Preload ''img2.png'', LoadFailed ''img2.png'' 1 ''404'']
                (snd (preloadTexture ''img1.png'' initialTextureCacheState)))) = 0
   \<and> map_of (globalTextureCache
               (onLoad True ''img1.png'' 0 (loaderTexture 7 ''img1.png'')
                  (snd (preloadTexture ''img1.png'' initialTextureCacheState)))) ''img1.png''
        = Some (tiledTexture 7 ''img1.png'')
   \<and> promiseStates
         (snd (preloadTexture ''img1.png''
                 (onLoad True ''img1.png'' 0 (loaderTexture 7 ''img1.png'')
                    (snd (preloadTexture ''img1.png'' initialTextureCacheState)))))
       ! fst (preloadTexture ''img1.png''
                 (onLoad True ''img1.png'' 0 (loaderTexture 7 ''img1.png'')
                    (snd (preloadTexture ''img1.png'' initialTextureCacheState))))
        = Fulfilled (tiledTexture 7 ''img1.png'')
   \<and> loadsStarted
         (snd (preloadTexture ''img1.png''
                 (onLoad True ''img1.png'' 0 (loaderTexture 7 ''img1.png'')
                    (snd (preloadTexture ''img1.png'' initialTextureCacheState)))))
        = [(''img1.png'', 0)]"
  using preloadTexture_single_flight[where st = initialTextureCacheState
      and url = "''img1.png''"
      and es = "[Preload ''img2.png'', LoadFailed ''img2.png'' 1 ''404'']"
      and p = 0 and tex = "tiledTexture 7 ''img1.png''"]
    preloadTexture_single_flight[where
      st = "onLoad True ''img1.png'' 0 (loaderTexture 7 ''img1.png'')
              (snd (preloadTexture ''img1.png'' initialTextureCacheState))"
      and url = "''img1.png''" and es = "[]" and p = 0
      and tex = "tiledTexture 7 ''img1.png''"]
  by (simp add: initialTextureCacheState_def preloadTexture_def onLoad_def onError_def Let_def
      loaderTexture_def tiledTexture_def settle_def)

text \<open>
  Claim C7. When the load of a URL fails while its promise is pending, the error
  callback removes the in-flight entry of the URL and rejects the promise with the error;
  the resolved cache and the log of loads are unchanged. A later \<open>preloadTexture\<close> of a
  URL that is not resolved then starts a fresh load with a new pending promise.
\<close>

theorem onError_does_not_poison:
  assumes "map_of (texturePromises st) url = Some p"
    and "p < length (promiseStates st)"
    and "promiseStates st ! p = Pending"
  shows "map_of (texturePromises (onError url p err st)) url = None
       \<and> globalTextureCache (onError url p err st) = globalTextureCache st
       \<and> promiseStates (onError url p err st) ! p = Rejected err
       \<and> loadsStarted (onError url p err st) = loadsStarted st
       \<and> (map_of (globalTextureCache st) url = None \<longrightarrow>
            (let retry = preloadTexture url (onError url p err st)
             in fst retry \<noteq> p
                \<and> promiseStates (snd retry) ! fst retry = Pending
                \<and> promiseStates (snd retry) ! p = Rejected err
                \<and> map_of (texturePromises (snd retry)) url = Some (fst retry)
                \<and> loadsStarted (snd retry) = loadsStarted st @ [(url, fst retry)]))"
proof -
  let ?st' = "onError url p err st"
  have a: "map_of (texturePromises ?st') url = None"
    by (simp add: onError_def delete_conv')
  have b: "globalTextureCache ?st' = globalTextureCache st"
    by (simp add: onError_def)
  have c: "promiseStates ?st' ! p = Rejected err" and len: "length (promiseStates ?st') = length (promiseStates st)"
    using settle_pending[OF assms(2,3), of "Rejected err"] by (simp_all add: onError_def)
  have d: "loadsStarted ?st' = loadsStarted st"
    by (simp add: onError_def)
  have e: "let retry = preloadTexture url ?st'
             in fst retry \<noteq> p
                \<and> promiseStates (snd retry) ! fst retry = Pending
                \<and> promiseStates (snd retry) ! p = Rejected err
                \<and> map_of (texturePromises (snd retry)) url = Some (fst retry)
                \<and> loadsStarted (snd retry) = loadsStarted st @ [(url, fst retry)]"
    if "map_of (globalTextureCache st) url = None"
  proof -
    from that b have "map_of (globalTextureCache ?st') url = None" by simp
    note start = preloadTexture_start[OF this a]
    show ?thesis
      unfolding Let_def start using assms(2) c len d
      by (simp add: nth_append update_conv')
  qed
  from a b c d e show ?thesis by blast
qed

theorem onError_does_not_poison_witness:
  "map_of (texturePromises (snd (preloadTexture ''img1.png'' initialTextureCacheState)))
       ''img1.png'' = Some 0
   \<and> 0 < length (promiseStates (snd (preloadTexture ''img1.png'' initialTextureCacheState)))
   \<and> promiseStates (snd (preloadTexture ''img1.png'' initialTextureCacheState)) ! 0 = Pending
   \<and> map_of (globalTextureCache (snd (preloadTexture ''img1.png'' initialTextureCacheState)))
       ''img1.png'' = None
   \<and> globalTextureCache
         (onError ''img1.png'' 0 ''404''
            (snd (preloadTexture ''img1.png'' initialTextureCacheState))) = []
   \<and> texturePromises
         (onError ''img1.png'' 0 ''404''
            (snd (preloadTexture ''img1.png'' initialTextureCacheState))) = []
   \<and> promiseStates
         (onError ''img1.png'' 0 ''404''
            (snd (preloadTexture ''img1.png'' initialTextureCacheState))) = [Rejected ''404'']
   \<and> fst (preloadTexture ''img1.png''
            (onError ''img1.png'' 0 ''404''
               (snd (preloadTexture ''img1.png'' initialTextureCacheState)))) = 1
   \<and> loadsStarted (snd (preloadTexture ''img1.png''
            (onError ''img1.png'' 0 ''404''
               (snd (preloadTexture ''img1.png'' initialTextureCacheState)))))
        = [(''img1.png'', 0), (''img1.png'', 1)]"
  using onError_does_not_poison[where
      st = "snd (preloadTexture ''img1.png'' initialTextureCacheState)"
      and url = "''img1.png''" and p = 0 and err = "''404''"]
  by (simp add: initialTextureCacheState_def preloadTexture_def onError_def Let_def settle_def)

text \<open>
  Claim C8. \<open>clearTextureCache\<close> disposes every cached texture and empties the resolved
  cache and the in-flight map; a second call right after changes nothing, so no texture
  is disposed twice.
\<close>

theorem clearTextureCache_idempotent:
  "globalTextureCache (clearTextureCache st) = []
   \<and> texturePromises (clearTextureCache st) = []
   \<and> disposed (clearTextureCache st) = disposed st @ map snd (globalTextureCache st)
   \<and> clearTextureCache (clearTextureCache st) = clearTextureCache st
   \<and> disposed (clearTextureCache (clearTextureCache st)) = disposed (clearTextureCache st)"
  by (simp add: clearTextureCache_def)

text \<open>
  Claim C10. \<open>getCachedTexture\<close> returns \<open>null\<close> for \<open>null\<close> and for \<open>undefined\<close>
  whatever the cache holds, returns \<open>null\<close> for a string that is not a key of the
  resolved cache, and in each case leaves the module state as it is: it starts no load.
\<close>

theorem getCachedTexture_total:
  "getCachedTexture Null st = (None, st)
   \<and> getCachedTexture Undefined st = (None, st)
   \<and> (map_of (globalTextureCache st) u = None \<longrightarrow> getCachedTexture (Str u) st = (None, st))"
  by (simp add: getCachedTexture_def)

theorem getCachedTexture_total_witness:
  "map_of (globalTextureCache
             (onLoad True ''img1.png'' 0 (loaderTexture 7 ''img1.png'')
                (snd (preloadTexture ''img1.png'' initialTextureCacheState)))) ''img2.png''
     = None
   \<and> fst (getCachedTexture (Str ''img2.png'')
             (onLoad True ''img1.png'' 0 (loaderTexture 7 ''img1.png'')
                (snd (preloadTexture ''img1.png'' initialTextureCacheState)))) = None
   \<and> fst (getCachedTexture (Str ''img1.png'')
             (onLoad True ''img1.png'' 0 (loaderTexture 7 ''img1.png'')
                (snd (preloadTexture ''img1.png'' initialTextureCacheState))))
        = Some (tiledTexture 7 ''img1.png'')
   \<and> fst (getCachedTexture Null
             (onLoad True ''img1.png'' 0 (loaderTexture 7 ''img1.png'')
                (snd (preloadTexture ''img1.png'' initialTextureCacheState)))) = None"
  using getCachedTexture_total[where
      st = "onLoad True ''img1.png'' 0 (loaderTexture 7 ''img1.png'')
              (snd (preloadTexture ''img1.png'' initialTextureCacheState))"
      and u = "''img2.png''"]
  by (simp add: initialTextureCacheState_def preloadTexture_def onLoad_def Let_def
      getCachedTexture_def loaderTexture_def tiledTexture_def)

section \<open>Double arithmetic: evaluation\<close>

lemma roundHalfEven_nonneg: "0 \<le> y \<Longrightarrow> 0 \<le> roundHalfEven y"
  by (auto simp add: roundHalfEven_def Let_def)

lemma toDouble_nonneg: "0 \<le> x \<Longrightarrow> 0 \<le> toDouble x"
  by (simp add: toDouble_def roundHalfEven_nonneg)

lemma two_powr_neg: "2 powr real_of_int (- int j) = 1 / (2::real) ^ j"
  by (simp add: powr_minus_divide powr_realpow)

lemma two_powr_pos: "2 powr real_of_int (int j) = (2::real) ^ j"
  by (simp add: powr_realpow)

lemma toDouble_eval_small:
  assumes "1 / 2 ^ j \<le> x" and "x < 2 / 2 ^ j" and "j \<le> 1022"
  shows "toDouble x = of_int (roundHalfEven (x * 2 ^ (52 + j))) / 2 ^ (52 + j)"
proof -
  have "(0::real) < 1 / 2 ^ j" by simp
  with assms(1) have pos: "0 < x" by linarith
  have p2: "2 powr real_of_int (- int j + 1) = 2 / (2::real) ^ j"
  proof (cases j)
    case 0
    then show ?thesis by (simp add: powr_int)
  next
    case (Suc i)
    then have "- int j + 1 = - int i" by simp
    then show ?thesis by (simp only: two_powr_neg) (simp add: Suc)
  qed
  have "\<lfloor>log 2 x\<rfloor> = - int j"
    using floor_log_eq_powr_iff[of x 2 "- int j"] pos assms(1,2)
    by (simp only: two_powr_neg p2)
  then have e: "doubleExponent x = - int j"
    using pos assms(3) by (simp add: doubleExponent_def)
  have "- int j - 52 = - int (52 + j)" by simp
  then have u: "2 powr real_of_int (- int j - 52) = 1 / (2::real) ^ (52 + j)"
    by (simp only: two_powr_neg)
  show ?thesis
    unfolding toDouble_def e u using pos by simp
qed

lemma toDouble_eval_big:
  assumes "2 ^ j \<le> x" and "x < 2 * 2 ^ j" and "j \<le> 52"
  shows "toDouble x = of_int (roundHalfEven (x * 2 ^ (52 - j))) / 2 ^ (52 - j)"
proof -
  have "(0::real) < 2 ^ j" by simp
  with assms(1) have pos: "0 < x" by linarith
  have "int j + 1 = int (Suc j)" by simp
  then have p2: "2 powr real_of_int (int j + 1) = 2 * (2::real) ^ j"
    by (simp only: two_powr_pos) simp
  have "\<lfloor>log 2 x\<rfloor> = int j"
    using floor_log_eq_powr_iff[of x 2 "int j"] pos assms(1,2)
    by (simp only: two_powr_pos p2)
  then have e: "doubleExponent x = int j"
    using pos by (simp add: doubleExponent_def)
  have "int j - 52 = - int (52 - j)" using assms(3) by simp
  then have u: "2 powr real_of_int (int j - 52) = 1 / (2::real) ^ (52 - j)"
    by (simp only: two_powr_neg)
  show ?thesis
    unfolding toDouble_def e u using pos by simp
qed



lemma toDouble_tenth: "toDouble 0.1 = 3602879701896397 / 36028797018963968"
  by (subst toDouble_eval_small[where j = 4]) (simp_all add: roundHalfEven_def Let_def)

lemma toDouble_one: "toDouble 1 = 1"
  by (subst toDouble_eval_big[where j = 0]) (simp_all add: roundHalfEven_def Let_def)

section \<open>Transitions: progress and the completion callback\<close>


lemma mergeTransition_snoc:
  "mergeTransition (es @ [e]) st = mergeStep e (mergeTransition es st)"
  by (simp add: mergeTransition_def)



lemma ex_prefix_snoc:
  "(\<exists>m\<le>length (xs @ [x]). P (take m (xs @ [x])))
     \<longleftrightarrow> (\<exists>m\<le>length xs. P (take m xs)) \<or> P (xs @ [x])"
proof
  assume "\<exists>m\<le>length (xs @ [x]). P (take m (xs @ [x]))"
  then obtain m where m: "m \<le> Suc (length xs)" and p: "P (take m (xs @ [x]))" by auto
  show "(\<exists>m\<le>length xs. P (take m xs)) \<or> P (xs @ [x])"
  proof (cases "m \<le> length xs")
    case True
    with p have "P (take m xs)" by simp
    with True show ?thesis by blast
  next
    case False
    with m have "m = Suc (length xs)" by simp
    with p show ?thesis by simp
  qed
next
  assume "(\<exists>m\<le>length xs. P (take m xs)) \<or> P (xs @ [x])"
  then show "\<exists>m\<le>length (xs @ [x]). P (take m (xs @ [x]))"
  proof
    assume "\<exists>m\<le>length xs. P (take m xs)"
    then obtain m where "m \<le> length xs" and "P (take m xs)" by blast
    then have "m \<le> length (xs @ [x])" and "P (take m (xs @ [x]))" by simp_all
    then show ?thesis by blast
  next
    assume "P (xs @ [x])"
    then have "P (take (length (xs @ [x])) (xs @ [x]))" by simp
    then show ?thesis by blast
  qed
qed




lemma mergeStep_fired:
  "animationCompleteRef s \<Longrightarrow> animProgress s \<le> 1 \<Longrightarrow>
     animationCompleteRef (mergeStep e s)
     \<and> completionTimeouts (mergeStep e s) = completionTimeouts s
     \<and> animProgress (mergeStep e s) \<le> 1"
  by (cases e) (simp_all add: mergeFrame_def mergeRender_def Let_def)

lemma mergeStep_not_fired:
  "\<not> animationCompleteRef s \<Longrightarrow> animProgress s < 1 \<Longrightarrow>
     (animationCompleteRef (mergeStep e s) \<longleftrightarrow> animProgress (mergeStep e s) = 1)
     \<and> completionTimeouts (mergeStep e s)
         = completionTimeouts s + (if animProgress (mergeStep e s) = 1 then 1 else 0)
     \<and> animProgress (mergeStep e s) \<le> 1"
  by (cases e) (auto simp add: mergeFrame_def mergeRender_def Let_def min_def)

lemma mergeTransition_invariant:
  "(animationCompleteRef (mergeTransition es st)
      \<longleftrightarrow> (\<exists>m\<le>length es. animProgress (mergeTransition (take m es) st) = 1))
   \<and> completionTimeouts (mergeTransition es st)
       = completionTimeouts st + (if animationCompleteRef (mergeTransition es st) then 1 else 0)
   \<and> animProgress (mergeTransition es st) \<le> 1"
proof (induction es rule: rev_induct)
  case Nil
  show ?case by (simp add: mergeTransition_def mergeEffect_def)
next
  case (snoc e es)
  let ?s = "mergeTransition es st"
  have split: "(\<exists>m\<le>length (es @ [e]). animProgress (mergeTransition (take m (es @ [e])) st) = 1)
               \<longleftrightarrow> animationCompleteRef ?s \<or> animProgress (mergeStep e ?s) = 1"
    using snoc.IH
      ex_prefix_snoc[of es e "\<lambda>xs. animProgress (mergeTransition xs st) = 1"]
    by (simp only: mergeTransition_snoc)
  from snoc.IH have le: "animProgress ?s \<le> 1" by simp
  from snoc.IH have calls: "completionTimeouts ?s
       = completionTimeouts st + (if animationCompleteRef ?s then 1 else 0)"
    by simp
  show ?case
    unfolding split mergeTransition_snoc
  proof (cases "animationCompleteRef ?s")
    case True
    with mergeStep_fired[OF True le, of e] calls show
      "(animationCompleteRef (mergeStep e ?s)
          \<longleftrightarrow> animationCompleteRef ?s \<or> animProgress (mergeStep e ?s) = 1)
       \<and> completionTimeouts (mergeStep e ?s)
           = completionTimeouts st + (if animationCompleteRef (mergeStep e ?s) then 1 else 0)
       \<and> animProgress (mergeStep e ?s) \<le> 1"
      by simp
  next
    case False
    with snoc.IH have "\<not> (\<exists>m\<le>length es. animProgress (mergeTransition (take m es) st) = 1)"
      by simp
    then have "animProgress (mergeTransition (take (length es) es) st) \<noteq> 1"
      by blast
    with le have lt: "animProgress ?s < 1" by simp
    from mergeStep_not_fired[OF False lt, of e] False calls show
      "(animationCompleteRef (mergeStep e ?s)
          \<longleftrightarrow> animationCompleteRef ?s \<or> animProgress (mergeStep e ?s) = 1)
       \<and> completionTimeouts (mergeStep e ?s)
           = completionTimeouts st + (if animationCompleteRef (mergeStep e ?s) then 1 else 0)
       \<and> animProgress (mergeStep e ?s) \<le> 1"
      by simp
  qed
qed











section \<open>The phases of the merge animation\<close>

lemma phase_windows:
  "0 \<le> p \<Longrightarrow> phase1 p = window_spec 0 2.5 p"
  "phase2 p = window_spec 0.4 2 p"
  "phase3 p = window_spec 0.7 3.33 p"
  by (auto simp add: phase1_def phase2_def phase3_def window_spec_def clamp_def min_def max_def)

lemma ease_specs:
  "easeInOutCubic t = cubic_ease_in_out_spec t"
  "easeOutQuart t = quartic_ease_out_spec t"
  by (simp_all add: easeInOutCubic_def cubic_ease_in_out_spec_def easeOutQuart_def
      quartic_ease_out_spec_def power3_eq_cube mult.assoc)

text \<open>
  The progress a merge transition reaches is a value between 0 and 1, whatever the order
  of its frames and renders.
\<close>

lemma mergeTransition_progress_range:
  assumes "\<forall>d. Frame d \<in> set es \<longrightarrow> 0 \<le> d" and "0 \<le> renderedProgress st"
  shows "0 \<le> animProgress (mergeTransition es st) \<and> animProgress (mergeTransition es st) \<le> 1"
proof -
  have "0 \<le> animProgress (mergeTransition es st) \<and> 0 \<le> renderedProgress (mergeTransition es st)"
    using assms(1)
  proof (induction es rule: rev_induct)
    case Nil
    show ?case using assms(2) by (simp add: mergeTransition_def mergeEffect_def)
  next
    case (snoc e es)
    then have ih: "0 \<le> animProgress (mergeTransition es st)
                 \<and> 0 \<le> renderedProgress (mergeTransition es st)"
      by simp
    show ?case
    proof (cases e)
      case (Frame d)
      with snoc.prems have "0 \<le> d" by simp
      then have "0 \<le> d * toDouble 0.35"
        by (simp add: toDouble_nonneg)
      then have "0 \<le> jsAdd (renderedProgress (mergeTransition es st)) (jsMul d (toDouble 0.35))"
        using ih by (simp add: jsAdd_def jsMul_def toDouble_nonneg)
      with ih show ?thesis
        by (simp add: Frame mergeTransition_snoc mergeFrame_def Let_def)
    next
      case Render
      with ih show ?thesis
        by (simp add: mergeTransition_snoc mergeRender_def)
    qed
  qed
  then show ?thesis
    using mergeTransition_invariant[of es st] by simp
qed

text \<open>
  Claim C6. For a master progress \<open>p \<ge> 0\<close>, each phase of the merge animation is the
  window \<open>clamp ((p - windowStart) * windowScale) 0 1\<close>: the move-together phase with
  start 0 and scale 2.5, the rotate-to-vertical phase with start 0.4 and scale 2, the
  form-cone phase with start 0.7 and scale 3.33. The first and the third are eased with the
  cubic ease-in-out, the second with the quartic ease-out, and every geometry parameter is
  the linear interpolation \<open>start + (end - start) * e\<close> at the eased value.
\<close>

theorem merge_phases_are_eased_windows:
  assumes "0 \<le> p"
  shows "phase1 p = window_spec 0 2.5 p
       \<and> phase2 p = window_spec 0.4 2 p
       \<and> phase3 p = window_spec 0.7 3.33 p
       \<and> moveEase p = cubic_ease_in_out_spec (window_spec 0 2.5 p)
       \<and> rotateEase p = quartic_ease_out_spec (window_spec 0.4 2 p)
       \<and> coneEase p = cubic_ease_in_out_spec (window_spec 0.7 3.33 p)
       \<and> paperX p = lerp_spec 1.8 0 (moveEase p)
       \<and> filterX p = lerp_spec (-1.8) 0 (moveEase p)
       \<and> rotationAngle p = lerp_spec (- pi / 2) 0 (rotateEase p)
       \<and> paperTopRadius p = lerp_spec 0.20 0.18 (coneEase p)
       \<and> paperBottomRadius p = lerp_spec 0.35 0.12 (coneEase p)
       \<and> paperHeight p = lerp_spec 4 2.8 (coneEase p)
       \<and> paperY p = lerp_spec 0 1.5 (coneEase p)
       \<and> filterTopRadius p = lerp_spec 0.20 0.12 (coneEase p)
       \<and> filterBottomRadius fType p
            = lerp_spec (if fType = Some Wooden then 0.28 else 0.20) 0.14 (coneEase p)
       \<and> filterHeight p = lerp_spec 1.2 0.6 (coneEase p)"
proof -
  note w = phase_windows(1)[OF assms] phase_windows(2,3)[of p]
  have e: "moveEase p = cubic_ease_in_out_spec (window_spec 0 2.5 p)"
    "rotateEase p = quartic_ease_out_spec (window_spec 0.4 2 p)"
    "coneEase p = cubic_ease_in_out_spec (window_spec 0.7 3.33 p)"
    by (simp_all only: moveEase_def rotateEase_def coneEase_def ease_specs w)
  have g: "paperX p = lerp_spec 1.8 0 (moveEase p)"
    "filterX p = lerp_spec (-1.8) 0 (moveEase p)"
    "rotationAngle p = lerp_spec (- pi / 2) 0 (rotateEase p)"
    "paperTopRadius p = lerp_spec 0.20 0.18 (coneEase p)"
    "paperBottomRadius p = lerp_spec 0.35 0.12 (coneEase p)"
    "paperHeight p = lerp_spec 4 2.8 (coneEase p)"
    "paperY p = lerp_spec 0 1.5 (coneEase p)"
    "filterTopRadius p = lerp_spec 0.20 0.12 (coneEase p)"
    "filterBottomRadius fType p
            = lerp_spec (if fType = Some Wooden then 0.28 else 0.20) 0.14 (coneEase p)"
    "filterHeight p = lerp_spec 1.2 0.6 (coneEase p)"
    by (simp_all add: paperX_def filterX_def rotationAngle_def paperTopRadius_def
        paperBottomRadius_def paperHeight_def paperY_def filterTopRadius_def
        filterBottomRadius_def filterHeight_def lerp_spec_def algebra_simps)
  from w e g show ?thesis by simp
qed

theorem merge_phases_are_eased_windows_witness:
  "(0::real) \<le> 1/2
   \<and> phase1 (1/2) = 1 \<and> phase2 (1/2) = 1/5 \<and> phase3 (1/2) = 0
   \<and> window_spec 0 2.5 (1/2) = 1 \<and> window_spec 0.4 2 (1/2) = 1/5
   \<and> window_spec 0.7 3.33 (1/2) = 0
   \<and> moveEase (1/2) = 1 \<and> rotateEase (1/2) = 369/625 \<and> coneEase (1/2) = 0
   \<and> paperX (1/2) = 0 \<and> paperHeight (1/2) = 4"
  using merge_phases_are_eased_windows[of "1/2" None]
  by (simp add: window_spec_def clamp_def cubic_ease_in_out_spec_def quartic_ease_out_spec_def
      lerp_spec_def power_divide)

text \<open>Below 0 the move-together phase has no lower clamp.\<close>

lemma phase1_negative: "phase1 (-1) = -5/2 \<and> window_spec 0 2.5 (-1) = 0"
  by (simp add: phase1_def window_spec_def clamp_def)

section \<open>Colour overrides and texture maps\<close>









end
